theory Spec2Isabelle
  imports Complex_Main "HOL-Library.Word"
begin

section \<open>The animated character of game\_animator.py\<close>

text \<open>
  A shallow embedding of class \<open>AnimatedCharacter\<close>. Every method takes the character
  and returns what the call did (the value returned, or the exception raised) together
  with the character as the call left it. Numbers passed by the caller are Python
  integers (\<open>int\<close>); the scale factor is a rational, \<open>w * scale\<close> is the exact
  product (Python rounds it to a float) and \<open>int(w * scale)\<close> truncates toward zero;
  the general properties use of a scaled size only that it is not negative when the cell
  size and the scale are not.
  The calls into pygame fail as pygame does: \<open>pygame.image.load\<close> on a file it cannot
  read, \<open>pygame.Surface\<close> and \<open>pygame.transform.scale\<close> on a negative size, and
  an assignment to a coordinate of a \<open>pygame.Rect\<close> outside the range of a C int. A
  surface of a size that is not negative is taken to be allocated. A surface is
  represented by the pygame calls that built it, a rectangle by its four C ints.
\<close>

subsection \<open>Data\<close>

datatype pyexn = ZeroDivisionError | KeyError | IndexError | TypeError | ValueError | PygameError

datatype outcome = Returns_None | Returns bool | Raises pyexn

text \<open>A loaded image: only its size is ever read (\<open>get_width\<close>, \<open>get_height\<close>).\<close>

record sheet =
  sheet_file :: string
  sheet_width :: int
  sheet_height :: int

datatype surface =
    Blank int int
  | Cut sheet "int \<times> int \<times> int \<times> int"
  | Flipped surface
  | Scaled surface int int

type_synonym pg_rect = "32 word \<times> 32 word \<times> 32 word \<times> 32 word"

datatype clip_mode = Separate | Master | Range

text \<open>
  One entry of the dictionary \<open>self.animations\<close>. The keys \<open>frame_positions\<close>,
  \<open>start_frame\<close> and \<open>end_frame\<close> exist only in the modes that store them.
\<close>

record clip =
  clip_mode :: clip_mode
  clip_sprite_image :: sheet
  clip_frame_width :: int
  clip_frame_height :: int
  clip_frames :: int
  clip_speed :: int
  clip_loop :: bool
  clip_finished :: bool
  clip_frame_positions :: "(int \<times> int) list option"
  clip_start_frame :: "int option"
  clip_end_frame :: "int option"

record character =
  x_pos :: int
  y_pos :: int
  scale :: rat
  direction_mode :: string
  animations :: "string \<rightharpoonup> clip"
  current_animation :: "string option"
  current_frame :: int
  animation_timer :: int
  animation_speed :: int
  facing_right :: bool
  current_frame_width :: int
  current_frame_height :: int
  master_sprite_sheet :: "sheet option"
  master_frame_width :: int
  master_frame_height :: int
  master_columns :: int
  next_frame_index :: int
  image_surface :: surface
  rect :: pg_rect
  original_image :: "surface option"

definition AUTO_FLIP :: string where
  "AUTO_FLIP = ''auto_flip''"

definition SEPARATE_DIRECTIONS :: string where
  "SEPARATE_DIRECTIONS = ''separate_directions''"

definition NO_FLIP :: string where
  "NO_FLIP = ''no_flip''"

subsection \<open>Python and pygame primitives\<close>

text \<open>\<open>int(q)\<close>: truncation toward zero.\<close>

definition py_int :: "rat \<Rightarrow> int" where
  "py_int q = (if 0 \<le> q then \<lfloor>q\<rfloor> else \<lceil>q\<rceil>)"

text \<open>\<open>xs[i]\<close>: a negative index counts from the end; out of range raises.\<close>

definition py_index :: "'a list \<Rightarrow> int \<Rightarrow> pyexn + 'a" where
  "py_index xs i =
     (if 0 \<le> i \<and> i < int (length xs) then Inr (xs ! nat i)
      else if i < 0 \<and> - int (length xs) \<le> i then Inr (xs ! nat (int (length xs) + i))
      else Inl IndexError)"

text \<open>
  \<open>pygame.Surface((w, h))\<close> raises \<open>pygame.error\<close> for a negative size, and
  \<open>pygame.transform.scale(surface, (w, h))\<close> raises \<open>ValueError\<close> for one.
\<close>

definition surface_new :: "int \<Rightarrow> int \<Rightarrow> pyexn + surface" where
  "surface_new w h = (if w < 0 \<or> h < 0 then Inl PygameError else Inr (Blank w h))"

definition transform_scale :: "surface \<Rightarrow> int \<Rightarrow> int \<Rightarrow> pyexn + surface" where
  "transform_scale s w h = (if w < 0 \<or> h < 0 then Inl ValueError else Inr (Scaled s w h))"

text \<open>
  A \<open>pygame.Rect\<close> holds C ints: \<open>pygame.Rect(x, y, w, h)\<close> wraps its arguments to 32
  bits, an assignment to \<open>rect.x\<close> or \<open>rect.y\<close> raises \<open>TypeError\<close> for a value outside
  that range, and \<open>rect.center\<close> is read and assigned with the halves of width and
  height, in C arithmetic (the division truncates toward zero).
\<close>

definition fits_c_int :: "int \<Rightarrow> bool" where
  "fits_c_int v = (- (2 ^ 31) \<le> v \<and> v < 2 ^ 31)"

definition rect_new :: "int \<Rightarrow> int \<Rightarrow> int \<Rightarrow> int \<Rightarrow> pg_rect" where
  "rect_new x y w h = (word_of_int x, word_of_int y, word_of_int w, word_of_int h)"

definition rect_x :: "pg_rect \<Rightarrow> int" where
  "rect_x r = (case r of (rx, ry, rw, rh) \<Rightarrow> sint rx)"

definition rect_y :: "pg_rect \<Rightarrow> int" where
  "rect_y r = (case r of (rx, ry, rw, rh) \<Rightarrow> sint ry)"

definition half :: "32 word \<Rightarrow> 32 word" where
  "half w = word_of_int (if 0 \<le> sint w then sint w div 2 else - ((- sint w) div 2))"

definition rect_center :: "pg_rect \<Rightarrow> 32 word \<times> 32 word" where
  "rect_center r = (case r of (rx, ry, rw, rh) \<Rightarrow> (rx + half rw, ry + half rh))"

definition rect_set_center :: "pg_rect \<Rightarrow> 32 word \<times> 32 word \<Rightarrow> pg_rect" where
  "rect_set_center r ctr =
     (case (r, ctr) of ((rx, ry, rw, rh), (cx, cy)) \<Rightarrow> (cx - half rw, cy - half rh, rw, rh))"

definition rect_set_x :: "pg_rect \<Rightarrow> int \<Rightarrow> pyexn + pg_rect" where
  "rect_set_x r v =
     (case r of (rx, ry, rw, rh) \<Rightarrow>
        if fits_c_int v then Inr (word_of_int v, ry, rw, rh) else Inl TypeError)"

definition rect_set_y :: "pg_rect \<Rightarrow> int \<Rightarrow> pyexn + pg_rect" where
  "rect_set_y r v =
     (case r of (rx, ry, rw, rh) \<Rightarrow>
        if fits_c_int v then Inr (rx, word_of_int v, rw, rh) else Inl TypeError)"

subsection \<open>Construction and settings\<close>

definition init :: "int \<Rightarrow> int \<Rightarrow> rat \<Rightarrow> string \<Rightarrow> character" where
  "init x y scale0 mode0 =
     \<lparr> x_pos = x, y_pos = y, scale = scale0, direction_mode = mode0,
       animations = Map.empty, current_animation = None, current_frame = 0,
       animation_timer = 0, animation_speed = 10, facing_right = True,
       current_frame_width = 64, current_frame_height = 64,
       master_sprite_sheet = None, master_frame_width = 64, master_frame_height = 64,
       master_columns = 8, next_frame_index = 0,
       image_surface = Blank 64 64, rect = rect_new x y 64 64, original_image = None \<rparr>"

definition set_direction_mode :: "string \<Rightarrow> character \<Rightarrow> outcome \<times> character" where
  "set_direction_mode mode c =
     (if mode \<in> set [AUTO_FLIP, SEPARATE_DIRECTIONS, NO_FLIP]
      then (Returns_None, c\<lparr>direction_mode := mode\<rparr>)
      else (Returns_None, c))"

definition set_facing_direction :: "bool \<Rightarrow> character \<Rightarrow> outcome \<times> character" where
  "set_facing_direction right c = (Returns_None, c\<lparr>facing_right := right\<rparr>)"

text \<open>
  The first argument of \<open>load_master_sprite_sheet\<close> and of \<open>add_animation\<close> stands for
  the file: it is what \<open>pygame.image.load\<close> gives for it, \<open>None\<close> when it raises.
\<close>

definition load_master_sprite_sheet ::
    "sheet option \<Rightarrow> int \<Rightarrow> int \<Rightarrow> int \<Rightarrow> character \<Rightarrow> outcome \<times> character" where
  "load_master_sprite_sheet loaded frame_width frame_height columns c =
     (case loaded of
        None \<Rightarrow> (Returns False, c)
      | Some img \<Rightarrow>
          (Returns True,
           c\<lparr>master_sprite_sheet := Some img, master_frame_width := frame_width,
             master_frame_height := frame_height, master_columns := columns,
             next_frame_index := 0\<rparr>))"

text \<open>
  \<open>_update_sprite_attributes\<close>: the new surface is built first, and when pygame
  refuses it nothing has been assigned.
\<close>

definition update_sprite_attributes :: "character \<Rightarrow> outcome \<times> character" where
  "update_sprite_attributes c =
     (let scaled_width = py_int (of_int (current_frame_width c) * scale c);
          scaled_height = py_int (of_int (current_frame_height c) * scale c)
      in case surface_new scaled_width scaled_height of
           Inl e \<Rightarrow> (Raises e, c)
         | Inr img \<Rightarrow>
             let old_center = rect_center (rect c);
                 r = rect_set_center (rect_new 0 0 scaled_width scaled_height) old_center
             in (Returns_None,
                 c\<lparr>image_surface := img, rect := r, x_pos := rect_x r, y_pos := rect_y r\<rparr>))"

subsection \<open>Registering animations\<close>

text \<open>
  The body of the two loops over a master sheet: the pixel position of the cell with
  0-based index \<open>idx\<close>. The callers raise \<open>ZeroDivisionError\<close> before using it when
  the column count is 0.
\<close>

definition frame_position :: "character \<Rightarrow> int \<Rightarrow> int \<times> int" where
  "frame_position c idx =
     (let row = idx div master_columns c;
          col = idx mod master_columns c
      in (col * master_frame_width c, row * master_frame_height c))"

text \<open>
  The block \<open>if self.current_animation is None: ...\<close> shared by the three
  registrations; its last statement is the call of \<open>_update_sprite_attributes\<close>.
\<close>

definition select_if_first ::
    "string \<Rightarrow> int \<Rightarrow> int \<Rightarrow> int \<Rightarrow> character \<Rightarrow> outcome \<times> character" where
  "select_if_first name speed w h c =
     (if current_animation c = None
      then update_sprite_attributes
             (c\<lparr>current_animation := Some name, animation_speed := speed,
                current_frame_width := w, current_frame_height := h\<rparr>)
      else (Returns_None, c))"

definition add_animation_from_master ::
    "string \<Rightarrow> int \<Rightarrow> int \<Rightarrow> bool \<Rightarrow> character \<Rightarrow> outcome \<times> character" where
  "add_animation_from_master name frames speed loop c =
     (case master_sprite_sheet c of
        None \<Rightarrow> (Returns False, c)
      | Some img \<Rightarrow>
          if 0 < frames \<and> master_columns c = 0 then (Raises ZeroDivisionError, c)
          else
            let frame_positions =
                  map (\<lambda>i. frame_position c (next_frame_index c + int i)) [0..<nat frames];
                c1 = c\<lparr>animations := (animations c)(name \<mapsto>
                       \<lparr> clip_mode = Master, clip_sprite_image = img,
                         clip_frame_width = master_frame_width c,
                         clip_frame_height = master_frame_height c,
                         clip_frames = frames, clip_speed = speed, clip_loop = loop,
                         clip_finished = False,
                         clip_frame_positions = Some frame_positions,
                         clip_start_frame = None, clip_end_frame = None \<rparr>)\<rparr>;
                c2 = c1\<lparr>next_frame_index := next_frame_index c1 + frames\<rparr>
            in (case select_if_first name speed (master_frame_width c2)
                       (master_frame_height c2) c2 of
                  (Raises e, c3) \<Rightarrow> (Raises e, c3)
                | (_, c3) \<Rightarrow> (Returns True, c3)))"

text \<open>
  In \<open>add_animation\<close> the whole body stands in \<open>try\<close>: an exception of the load
  or of \<open>_update_sprite_attributes\<close> is caught, and False is returned with whatever
  was assigned before it.
\<close>

definition add_animation ::
    "string \<Rightarrow> sheet option \<Rightarrow> int \<Rightarrow> int \<Rightarrow> int \<Rightarrow> int \<Rightarrow> bool \<Rightarrow> character
      \<Rightarrow> outcome \<times> character" where
  "add_animation name loaded frame_width frame_height frames speed loop c =
     (case loaded of
        None \<Rightarrow> (Returns False, c)
      | Some sprite_image \<Rightarrow>
          let c1 = c\<lparr>animations := (animations c)(name \<mapsto>
                     \<lparr> clip_mode = Separate, clip_sprite_image = sprite_image,
                       clip_frame_width = frame_width, clip_frame_height = frame_height,
                       clip_frames = frames, clip_speed = speed, clip_loop = loop,
                       clip_finished = False, clip_frame_positions = None,
                       clip_start_frame = None, clip_end_frame = None \<rparr>)\<rparr>
          in (case select_if_first name speed frame_width frame_height c1 of
                (Raises e, c2) \<Rightarrow> (Returns False, c2)
              | (_, c2) \<Rightarrow> (Returns True, c2)))"

definition add_directional_animation ::
    "string \<Rightarrow> sheet option \<Rightarrow> sheet option \<Rightarrow> int \<Rightarrow> int \<Rightarrow> int \<Rightarrow> int \<Rightarrow> bool \<Rightarrow> character
      \<Rightarrow> outcome \<times> character" where
  "add_directional_animation base_name left_sprite right_sprite frame_width frame_height
      frames speed loop c =
     (let (left_success, c1) =
            add_animation (base_name @ ''_left'') left_sprite frame_width frame_height
              frames speed loop c;
          (right_success, c2) =
            add_animation (base_name @ ''_right'') right_sprite frame_width frame_height
              frames speed loop c1
      in (Returns (left_success = Returns True \<and> right_success = Returns True), c2))"

definition add_animation_from_range ::
    "string \<Rightarrow> int \<Rightarrow> int \<Rightarrow> int \<Rightarrow> bool \<Rightarrow> character \<Rightarrow> outcome \<times> character" where
  "add_animation_from_range name start_frame end_frame speed loop c =
     (case master_sprite_sheet c of
        None \<Rightarrow> (Returns False, c)
      | Some img \<Rightarrow>
          if start_frame < 1 then (Returns False, c)
          else if end_frame < start_frame then (Returns False, c)
          else if master_frame_width c = 0 \<or> master_frame_height c = 0
          then (Raises ZeroDivisionError, c)
          else
            let total_columns = sheet_width img div master_frame_width c;
                total_rows = sheet_height img div master_frame_height c;
                total_frames = total_columns * total_rows
            in if end_frame > total_frames then (Returns False, c)
               else
                 let frames_count = end_frame - start_frame + 1
                 in if 0 < frames_count \<and> master_columns c = 0
                    then (Raises ZeroDivisionError, c)
                    else
                      let frame_positions =
                            map (\<lambda>i. frame_position c ((start_frame - 1) + int i))
                              [0..<nat frames_count];
                          c1 = c\<lparr>animations := (animations c)(name \<mapsto>
                                 \<lparr> clip_mode = Range, clip_sprite_image = img,
                                   clip_frame_width = master_frame_width c,
                                   clip_frame_height = master_frame_height c,
                                   clip_frames = frames_count, clip_speed = speed,
                                   clip_loop = loop, clip_finished = False,
                                   clip_frame_positions = Some frame_positions,
                                   clip_start_frame = Some start_frame,
                                   clip_end_frame = Some end_frame \<rparr>)\<rparr>
                      in (case select_if_first name speed (master_frame_width c1)
                                 (master_frame_height c1) c1 of
                            (Raises e, c2) \<Rightarrow> (Raises e, c2)
                          | (_, c2) \<Rightarrow> (Returns True, c2)))"

subsection \<open>Playback\<close>

definition play_animation :: "string \<Rightarrow> bool \<Rightarrow> character \<Rightarrow> outcome \<times> character" where
  "play_animation name reset c =
     (let resolved =
            (if direction_mode c = SEPARATE_DIRECTIONS
             then
               let direction_suffix = (if facing_right c then ''_right'' else ''_left'');
                   directional_name = name @ direction_suffix
               in if animations c directional_name \<noteq> None then Some directional_name
                  else if animations c name \<noteq> None then Some name
                  else None
             else Some name)
      in case resolved of
           None \<Rightarrow> (Returns_None, c)
         | Some nm \<Rightarrow>
             (case animations c nm of
                None \<Rightarrow> (Returns_None, c)
              | Some animation \<Rightarrow>
                  if current_animation c \<noteq> Some nm \<or> reset
                  then
                    update_sprite_attributes
                      (c\<lparr>current_animation := Some nm, current_frame := 0,
                         animation_timer := 0, animation_speed := clip_speed animation,
                         current_frame_width := clip_frame_width animation,
                         current_frame_height := clip_frame_height animation,
                         animations := (animations c)(nm \<mapsto> animation\<lparr>clip_finished := False\<rparr>)\<rparr>)
                  else (Returns_None, c)))"

text \<open>
  \<open>_update_image\<close>: the frame-sized surface, the cut from the sheet, the flip and the
  scaling, in this order; the image is assigned last.
\<close>

definition update_image :: "character \<Rightarrow> outcome \<times> character" where
  "update_image c =
     (case current_animation c of
        None \<Rightarrow> (Returns_None, c)
      | Some cur \<Rightarrow>
          (case animations c cur of
             None \<Rightarrow> (Raises KeyError, c)
           | Some animation \<Rightarrow>
              (let frame_width = clip_frame_width animation;
                   frame_height = clip_frame_height animation;
                   pos =
                     (if clip_mode animation = Master \<or> clip_mode animation = Range
                      then
                        (case clip_frame_positions animation of
                           None \<Rightarrow> Inl KeyError
                         | Some ps \<Rightarrow> py_index ps (current_frame c))
                      else Inr (current_frame c * frame_width, 0))
               in (case pos of
                    Inl e \<Rightarrow> (Raises e, c)
                  | Inr (frame_x, frame_y) \<Rightarrow>
                     (case surface_new frame_width frame_height of
                        Inl e \<Rightarrow> (Raises e, c)
                      | Inr blank \<Rightarrow>
                         (let frame_surface =
                                Cut (clip_sprite_image animation)
                                  (frame_x, frame_y, frame_width, frame_height);
                              flipped =
                                (if direction_mode c = AUTO_FLIP \<and> \<not> facing_right c
                                 then Flipped frame_surface else frame_surface);
                              scaled =
                                (if scale c \<noteq> 1
                                 then transform_scale flipped
                                        (py_int (of_int frame_width * scale c))
                                        (py_int (of_int frame_height * scale c))
                                 else Inr flipped)
                          in (case scaled of
                                Inl e \<Rightarrow> (Raises e, c)
                              | Inr img \<Rightarrow>
                                  (Returns_None,
                                   c\<lparr>image_surface := img,
                                     original_image := Some img\<rparr>))))))))"

definition update :: "character \<Rightarrow> outcome \<times> character" where
  "update c =
     (case current_animation c of
        None \<Rightarrow> (Returns_None, c)
      | Some cur \<Rightarrow>
          (case animations c cur of
             None \<Rightarrow> (Raises KeyError, c)
           | Some animation \<Rightarrow>
               let c1 = c\<lparr>animation_timer := animation_timer c + 1\<rparr>;
                   c2 =
                     (if animation_timer c1 \<ge> animation_speed c1
                      then
                        let c3 = c1\<lparr>animation_timer := 0, current_frame := current_frame c1 + 1\<rparr>
                        in if current_frame c3 \<ge> clip_frames animation
                           then
                             if clip_loop animation then c3\<lparr>current_frame := 0\<rparr>
                             else c3\<lparr>current_frame := clip_frames animation - 1,
                                    animations := (animations c3)(cur \<mapsto>
                                      animation\<lparr>clip_finished := True\<rparr>)\<rparr>
                           else c3
                      else c1)
               in update_image c2))"

text \<open>
  \<open>move\<close> and \<open>set_position\<close> assign \<open>rect.x\<close> and \<open>rect.y\<close> after \<open>self.x\<close> and
  \<open>self.y\<close>; in \<open>move\<close> the facing is set after them.
\<close>

definition move :: "int \<Rightarrow> int \<Rightarrow> character \<Rightarrow> outcome \<times> character" where
  "move dx dy c =
     (let c1 = c\<lparr>x_pos := x_pos c + dx, y_pos := y_pos c + dy\<rparr>
      in case rect_set_x (rect c1) (x_pos c1) of
           Inl e \<Rightarrow> (Raises e, c1)
         | Inr rx \<Rightarrow>
            (let c2 = c1\<lparr>rect := rx\<rparr>
             in case rect_set_y (rect c2) (y_pos c2) of
                  Inl e \<Rightarrow> (Raises e, c2)
                | Inr ry \<Rightarrow>
                   (let c3 = c2\<lparr>rect := ry\<rparr>
                    in if direction_mode c3 \<noteq> NO_FLIP
                       then
                         if dx > 0 then (Returns_None, c3\<lparr>facing_right := True\<rparr>)
                         else if dx < 0 then (Returns_None, c3\<lparr>facing_right := False\<rparr>)
                         else (Returns_None, c3)
                       else (Returns_None, c3))))"

definition set_position :: "int \<Rightarrow> int \<Rightarrow> character \<Rightarrow> outcome \<times> character" where
  "set_position x y c =
     (let c1 = c\<lparr>x_pos := x, y_pos := y\<rparr>
      in case rect_set_x (rect c1) x of
           Inl e \<Rightarrow> (Raises e, c1)
         | Inr rx \<Rightarrow>
            (let c2 = c1\<lparr>rect := rx\<rparr>
             in case rect_set_y (rect c2) y of
                  Inl e \<Rightarrow> (Raises e, c2)
                | Inr ry \<Rightarrow> (Returns_None, c2\<lparr>rect := ry\<rparr>)))"

definition is_animation_finished :: "character \<Rightarrow> pyexn + bool" where
  "is_animation_finished c =
     (case current_animation c of
        None \<Rightarrow> Inr True
      | Some cur \<Rightarrow>
          (case animations c cur of
             None \<Rightarrow> Inl KeyError
           | Some animation \<Rightarrow> Inr (clip_finished animation)))"

subsection \<open>Callers\<close>

text \<open>
  The game loop calls \<open>update()\<close> once per frame: the character after \<open>k\<close> calls, or
  the exception of the first call that raised.
\<close>

fun update_n :: "nat \<Rightarrow> character \<Rightarrow> pyexn + character" where
  "update_n 0 c = Inr c"
| "update_n (Suc k) c =
     (case update_n k c of
        Inl e \<Rightarrow> Inl e
      | Inr c' \<Rightarrow>
          (case fst (update c') of
             Raises e \<Rightarrow> Inl e
           | _ \<Rightarrow> Inr (snd (update c'))))"

text \<open>The public methods that change a character, as calls with their arguments.\<close>

datatype call =
    Load_master_sprite_sheet "sheet option" int int int
  | Add_animation_from_master string int int bool
  | Add_animation string "sheet option" int int int int bool
  | Add_directional_animation string "sheet option" "sheet option" int int int int bool
  | Add_animation_from_range string int int int bool
  | Play_animation string bool
  | Update
  | Move int int
  | Set_position int int
  | Set_direction_mode string
  | Set_facing_direction bool

fun exec :: "call \<Rightarrow> character \<Rightarrow> outcome \<times> character" where
  "exec (Load_master_sprite_sheet loaded w h cols) c = load_master_sprite_sheet loaded w h cols c"
| "exec (Add_animation_from_master name frames speed loop) c =
     add_animation_from_master name frames speed loop c"
| "exec (Add_animation name loaded w h frames speed loop) c =
     add_animation name loaded w h frames speed loop c"
| "exec (Add_directional_animation base l r w h frames speed loop) c =
     add_directional_animation base l r w h frames speed loop c"
| "exec (Add_animation_from_range name s e speed loop) c =
     add_animation_from_range name s e speed loop c"
| "exec (Play_animation name reset) c = play_animation name reset c"
| "exec Update c = update c"
| "exec (Move dx dy) c = move dx dy c"
| "exec (Set_position x y) c = set_position x y c"
| "exec (Set_direction_mode mode) c = set_direction_mode mode c"
| "exec (Set_facing_direction right) c = set_facing_direction right c"

text \<open>
  A history: the calls made on a character, in order. A call that raised leaves the
  character as it was at the raise, and the caller may go on.
\<close>

fun run :: "call list \<Rightarrow> character \<Rightarrow> character" where
  "run [] c = c"
| "run (call # calls) c = run calls (snd (exec call c))"

subsection \<open>Predicates of the specification\<close>

text \<open>
  The playback cursor invariant of the data model: with a clip selected, the frame index
  is an index into the clip and the tick accumulator is below the clip's speed.
\<close>

definition cursor_ok :: "character \<Rightarrow> bool" where
  "cursor_ok c =
     (case current_animation c of
        None \<Rightarrow> True
      | Some cur \<Rightarrow>
          (case animations c cur of
             None \<Rightarrow> False
           | Some a \<Rightarrow>
               0 \<le> current_frame c \<and> current_frame c < clip_frames a \<and>
               0 \<le> animation_timer c \<and> animation_timer c < clip_speed a))"

text \<open>What every history establishes of the stored clips and of the selection.\<close>

definition clip_wf :: "clip \<Rightarrow> bool" where
  "clip_wf a =
     ((clip_mode a = Separate \<or>
       (\<exists>ps. clip_frame_positions a = Some ps \<and> length ps = nat (clip_frames a))) \<and>
      (clip_loop a \<longrightarrow> \<not> clip_finished a))"

definition char_wf :: "character \<Rightarrow> bool" where
  "char_wf c =
     ((\<forall>nm a. animations c nm = Some a \<longrightarrow> clip_wf a) \<and>
      (current_animation c = None \<longrightarrow>
         animations c = Map.empty \<and> current_frame c = 0 \<and> animation_timer c = 0) \<and>
      (\<forall>cur. current_animation c = Some cur \<longrightarrow> animations c cur \<noteq> None))"

subsection \<open>A character of the test scripts\<close>

text \<open>
  \<open>AnimatedCharacter(x=500, y=350, scale=3.0)\<close> with a 512 x 512 master sheet of
  64 x 64 cells in 8 columns.
\<close>

definition hero_sheet :: sheet where
  "hero_sheet =
     \<lparr> sheet_file = ''platformer_sprites_base.png'', sheet_width = 512, sheet_height = 512 \<rparr>"

definition hero_new :: character where
  "hero_new = init 500 350 3 AUTO_FLIP"

definition hero :: character where
  "hero = snd (load_master_sprite_sheet (Some hero_sheet) 64 64 8 hero_new)"

text \<open>
  A character with separate sprites per direction: \<open>idle\<close>, and \<open>walk\<close> registered
  through \<open>add_directional_animation\<close>.
\<close>

definition knight :: character where
  "knight =
     snd (add_directional_animation ''walk'' (Some hero_sheet) (Some hero_sheet) 64 64 4 8 True
       (snd (add_animation ''idle'' (Some hero_sheet) 64 64 4 15 True
         (init 0 0 1 SEPARATE_DIRECTIONS))))"

subsection \<open>Histories used as examples\<close>

text \<open>A looping clip registered again, under the same name, at another speed.\<close>

definition stale_calls :: "call list" where
  "stale_calls =
     [Load_master_sprite_sheet (Some hero_sheet) 64 64 8,
      Add_animation_from_master ''walk'' 2 10 True,
      Add_animation_from_master ''walk'' 2 1 True]"

text \<open>The same with a clip that is played once (\<open>loop=False\<close>).\<close>

definition stale_once_calls :: "call list" where
  "stale_once_calls =
     [Load_master_sprite_sheet (Some hero_sheet) 64 64 8,
      Add_animation_from_master ''jump'' 2 10 False,
      Add_animation_from_master ''jump'' 2 1 False]"

text \<open>A clip of two frames replaced by a clip of one frame while its second frame shows.\<close>

definition shrink_calls :: "call list" where
  "shrink_calls =
     [Load_master_sprite_sheet (Some hero_sheet) 64 64 8,
      Add_animation_from_master ''walk'' 2 2 True,
      Update, Update]"

definition shrunk :: character where
  "shrunk = snd (add_animation_from_master ''walk'' 1 2 True (run shrink_calls hero_new))"

text \<open>A first registration, and a clip registered and advanced by one tick.\<close>

definition idle_hero :: character where
  "idle_hero = snd (add_animation_from_master ''idle'' 4 15 True hero)"

definition strider_calls :: "call list" where
  "strider_calls =
     [Load_master_sprite_sheet (Some hero_sheet) 64 64 8,
      Add_animation_from_master ''walk'' 8 8 True,
      Update]"

definition strider :: character where
  "strider = run strider_calls hero_new"

text \<open>A master sheet loaded with a column count of 0.\<close>

definition columnless :: character where
  "columnless = snd (load_master_sprite_sheet (Some hero_sheet) 64 64 0 hero_new)"

text \<open>A character facing left.\<close>

definition lefty :: character where
  "lefty = hero_new\<lparr>facing_right := False\<rparr>"

section \<open>Properties\<close>

subsection \<open>Field lemmas\<close>

lemma update_sprite_attributes_fields [simp]:
  "current_animation (snd (update_sprite_attributes c)) = current_animation c"
  "animations (snd (update_sprite_attributes c)) = animations c"
  "current_frame (snd (update_sprite_attributes c)) = current_frame c"
  "animation_timer (snd (update_sprite_attributes c)) = animation_timer c"
  "animation_speed (snd (update_sprite_attributes c)) = animation_speed c"
  "facing_right (snd (update_sprite_attributes c)) = facing_right c"
  "direction_mode (snd (update_sprite_attributes c)) = direction_mode c"
  "next_frame_index (snd (update_sprite_attributes c)) = next_frame_index c"
  "master_sprite_sheet (snd (update_sprite_attributes c)) = master_sprite_sheet c"
  "master_columns (snd (update_sprite_attributes c)) = master_columns c"
  "master_frame_width (snd (update_sprite_attributes c)) = master_frame_width c"
  "master_frame_height (snd (update_sprite_attributes c)) = master_frame_height c"
  "scale (snd (update_sprite_attributes c)) = scale c"
  by (simp_all add: update_sprite_attributes_def Let_def surface_new_def)

lemma update_sprite_attributes_outcome:
  "fst (update_sprite_attributes c) =
     (if py_int (of_int (current_frame_width c) * scale c) < 0 \<or>
         py_int (of_int (current_frame_height c) * scale c) < 0
      then Raises PygameError else Returns_None)"
  by (simp add: update_sprite_attributes_def Let_def surface_new_def)

lemma select_if_first_fields [simp]:
  "animations (snd (select_if_first name speed w h c)) = animations c"
  "next_frame_index (snd (select_if_first name speed w h c)) = next_frame_index c"
  "current_animation (snd (select_if_first name speed w h c)) =
     Some (case current_animation c of None \<Rightarrow> name | Some cur \<Rightarrow> cur)"
  "current_frame (snd (select_if_first name speed w h c)) = current_frame c"
  "animation_timer (snd (select_if_first name speed w h c)) = animation_timer c"
  "animation_speed (snd (select_if_first name speed w h c)) =
     (if current_animation c = None then speed else animation_speed c)"
  by (auto simp: select_if_first_def)

lemma select_if_first_kept [simp]:
  "direction_mode (snd (select_if_first name speed w h c)) = direction_mode c"
  "facing_right (snd (select_if_first name speed w h c)) = facing_right c"
  "master_sprite_sheet (snd (select_if_first name speed w h c)) = master_sprite_sheet c"
  "master_columns (snd (select_if_first name speed w h c)) = master_columns c"
  "master_frame_width (snd (select_if_first name speed w h c)) = master_frame_width c"
  "master_frame_height (snd (select_if_first name speed w h c)) = master_frame_height c"
  "scale (snd (select_if_first name speed w h c)) = scale c"
  by (simp_all add: select_if_first_def)

lemma select_if_first_outcome:
  "fst (select_if_first name speed w h c) =
     (if current_animation c = None \<and>
         (py_int (of_int w * scale c) < 0 \<or> py_int (of_int h * scale c) < 0)
      then Raises PygameError else Returns_None)"
  by (simp add: select_if_first_def update_sprite_attributes_outcome)

lemma select_if_first_selected:
  "current_animation c = Some cur \<Longrightarrow> select_if_first name speed w h c = (Returns_None, c)"
  by (simp add: select_if_first_def)

text \<open>What a registration makes of the outcome of its last block.\<close>

lemma raised_or_true:
  "snd (case r of (Raises e, c') \<Rightarrow> (Raises e, c') | (_, c') \<Rightarrow> (Returns True, c')) = snd r"
  "fst (case r of (Raises e, c') \<Rightarrow> (Raises e, c') | (_, c') \<Rightarrow> (Returns True, c')) =
     (case fst r of Raises e \<Rightarrow> Raises e | _ \<Rightarrow> Returns True)"
  by (simp_all split: prod.splits outcome.splits)

lemma caught_or_true:
  "snd (case r of (Raises e, c') \<Rightarrow> (Returns False, c') | (_, c') \<Rightarrow> (Returns True, c')) = snd r"
  "fst (case r of (Raises e, c') \<Rightarrow> (Returns False, c') | (_, c') \<Rightarrow> (Returns True, c')) =
     (case fst r of Raises e \<Rightarrow> Returns False | _ \<Rightarrow> Returns True)"
  by (simp_all split: prod.splits outcome.splits)

lemma add_animation_fields:
  "animations (snd (add_animation name loaded w h frames speed loop c)) =
     (case loaded of
        None \<Rightarrow> animations c
      | Some img \<Rightarrow>
          (animations c)(name \<mapsto>
             \<lparr> clip_mode = Separate, clip_sprite_image = img,
               clip_frame_width = w, clip_frame_height = h,
               clip_frames = frames, clip_speed = speed, clip_loop = loop,
               clip_finished = False, clip_frame_positions = None,
               clip_start_frame = None, clip_end_frame = None \<rparr>))"
  "direction_mode (snd (add_animation name loaded w h frames speed loop c)) = direction_mode c"
  "facing_right (snd (add_animation name loaded w h frames speed loop c)) = facing_right c"
  "current_frame (snd (add_animation name loaded w h frames speed loop c)) = current_frame c"
  "animation_timer (snd (add_animation name loaded w h frames speed loop c)) = animation_timer c"
  "current_animation (snd (add_animation name loaded w h frames speed loop c)) =
     (case loaded of
        None \<Rightarrow> current_animation c
      | Some img \<Rightarrow> Some (case current_animation c of None \<Rightarrow> name | Some cur \<Rightarrow> cur))"
  unfolding add_animation_def Let_def
  by (cases loaded; simp add: caught_or_true)+

text \<open>A cell size and a scale that are not negative give a scaled size that is not.\<close>

lemma py_int_nonneg: "0 \<le> q \<Longrightarrow> 0 \<le> py_int q"
  by (simp add: py_int_def)

lemma scaled_nonneg:
  "0 \<le> w \<Longrightarrow> 0 \<le> sc \<Longrightarrow> \<not> py_int (of_int w * sc) < 0"
  using py_int_nonneg[of "of_int w * sc"] by (simp add: not_less)

lemma hero_fields [simp]:
  "master_sprite_sheet hero = Some hero_sheet" "master_frame_width hero = 64"
  "master_frame_height hero = 64" "master_columns hero = 8" "next_frame_index hero = 0"
  "current_animation hero = None" "animations hero = Map.empty" "scale hero = 3"
  by (simp_all add: hero_def hero_new_def init_def load_master_sprite_sheet_def)

subsection \<open>Range registration\<close>



text \<open>
  C2. With a master sheet set, a call \<open>add_animation_from_range(name, start, end, ...)\<close>
  with \<open>start < 1\<close>, or \<open>end < start\<close>, or \<open>end > totalFrames\<close> where
  \<open>totalFrames = (sheetWidth div cellWidth) * (sheetHeight div cellHeight)\<close>, returns
  False and leaves the whole character, its clip map and playback state included, as it
  was.
\<close>

theorem invalid_range_rejected:
  assumes "master_sprite_sheet c = Some img"
    and "start_frame < 1 \<or> end_frame < start_frame \<or>
         (master_frame_width c \<noteq> 0 \<and> master_frame_height c \<noteq> 0 \<and>
          end_frame > (sheet_width img div master_frame_width c) *
                      (sheet_height img div master_frame_height c))"
  shows "add_animation_from_range name start_frame end_frame speed loop c = (Returns False, c)"
  using assms by (auto simp: add_animation_from_range_def Let_def)

theorem invalid_range_rejected_witness:
  "add_animation_from_range ''x'' 5 3 10 True hero = (Returns False, hero) \<and>
   add_animation_from_range ''x'' 0 3 10 True hero = (Returns False, hero) \<and>
   add_animation_from_range ''x'' 60 65 10 True hero = (Returns False, hero)"
  using invalid_range_rejected[of hero hero_sheet 5 3 "''x''" 10 True]
    invalid_range_rejected[of hero hero_sheet 0 3 "''x''" 10 True]
    invalid_range_rejected[of hero hero_sheet 60 65 "''x''" 10 True]
  by (simp add: hero_sheet_def)

subsection \<open>Sequential registration\<close>




subsection \<open>Facing and direction\<close>




text \<open>
  C6. In mode \<open>SEPARATE_DIRECTIONS\<close>, \<open>play_animation(name)\<close> selects the clip named
  \<open>name_right\<close> when facing right (\<open>name_left\<close> when facing left) if it is registered;
  otherwise the clip named \<open>name\<close> if that is registered; and when neither is, the call
  changes nothing of the character. A resolved play with \<open>reset\<close> starts at frame 0, tick 0.
\<close>

theorem play_resolves_direction:
  assumes "direction_mode c = SEPARATE_DIRECTIONS"
    and "dn = name @ (if facing_right c then ''_right'' else ''_left'')"
    and "c' = snd (play_animation name reset c)"
  shows "(animations c dn \<noteq> None \<longrightarrow> current_animation c' = Some dn) \<and>
         (animations c dn = None \<and> animations c name \<noteq> None \<longrightarrow>
            current_animation c' = Some name) \<and>
         (animations c dn = None \<and> animations c name = None \<longrightarrow>
            play_animation name reset c = (Returns_None, c)) \<and>
         (reset \<and> (animations c dn \<noteq> None \<or> animations c name \<noteq> None) \<longrightarrow>
            current_frame c' = 0 \<and> animation_timer c' = 0)"
  using assms by (auto simp: play_animation_def Let_def)

lemma knight_fields:
  "direction_mode knight = SEPARATE_DIRECTIONS" "facing_right knight"
  "animations knight ''walk_right'' \<noteq> None" "animations knight ''walk_left'' \<noteq> None"
  "animations knight ''idle'' \<noteq> None" "animations knight ''idle_right'' = None"
  "animations knight ''jump'' = None" "animations knight ''jump_right'' = None"
  by (simp_all add: knight_def add_directional_animation_def add_animation_fields init_def
      Let_def split_def)

theorem play_resolves_direction_witness:
  "current_animation (snd (play_animation ''walk'' True knight)) = Some ''walk_right'' \<and>
   current_animation (snd (play_animation ''walk'' True (knight\<lparr>facing_right := False\<rparr>))) =
     Some ''walk_left'' \<and>
   current_animation (snd (play_animation ''idle'' True knight)) = Some ''idle'' \<and>
   play_animation ''jump'' True knight = (Returns_None, knight)"
  using play_resolves_direction[of knight "''walk_right''" "''walk''" _ True, OF _ _ refl]
    play_resolves_direction[of "knight\<lparr>facing_right := False\<rparr>" "''walk_left''" "''walk''" _ True, OF _ _ refl]
    play_resolves_direction[of knight "''idle_right''" "''idle''" _ True, OF _ _ refl]
    play_resolves_direction[of knight "''jump_right''" "''jump''" _ True, OF _ _ refl]
    knight_fields
  by simp

subsection \<open>What every history establishes\<close>

lemma update_image_fields [simp]:
  "current_animation (snd (update_image c)) = current_animation c"
  "animations (snd (update_image c)) = animations c"
  "current_frame (snd (update_image c)) = current_frame c"
  "animation_timer (snd (update_image c)) = animation_timer c"
  "animation_speed (snd (update_image c)) = animation_speed c"
  by (simp_all add: update_image_def Let_def split: option.splits sum.splits prod.splits)

lemma char_wf_init: "char_wf (init x y sc dm)"
  by (simp add: char_wf_def init_def)

lemma char_wf_add_animation:
  "char_wf c \<Longrightarrow> char_wf (snd (add_animation name loaded w h frames speed loop c))"
  by (cases loaded) (auto simp: char_wf_def clip_wf_def add_animation_fields split: option.splits)

lemma char_wf_add_animation_from_master:
  "char_wf c \<Longrightarrow> char_wf (snd (add_animation_from_master name frames speed loop c))"
  unfolding add_animation_from_master_def Let_def
  by (cases "master_sprite_sheet c")
     (auto simp: char_wf_def clip_wf_def raised_or_true split: option.splits)

lemma char_wf_add_animation_from_range:
  "char_wf c \<Longrightarrow> char_wf (snd (add_animation_from_range name s e speed loop c))"
  unfolding add_animation_from_range_def Let_def
  by (cases "master_sprite_sheet c")
     (auto simp: char_wf_def clip_wf_def raised_or_true split: option.splits)

lemma char_wf_add_directional_animation:
  "char_wf c \<Longrightarrow>
   char_wf (snd (add_directional_animation base l r w h frames speed loop c))"
  by (simp add: add_directional_animation_def Let_def split_def char_wf_add_animation)

lemma char_wf_play_animation:
  "char_wf c \<Longrightarrow> char_wf (snd (play_animation name reset c))"
  unfolding play_animation_def Let_def
  by (auto simp: char_wf_def clip_wf_def split: option.splits)

lemma char_wf_update:
  "char_wf c \<Longrightarrow> char_wf (snd (update c))"
  unfolding update_def Let_def
  by (auto simp: char_wf_def clip_wf_def split: option.splits)

lemma char_wf_move: "char_wf c \<Longrightarrow> char_wf (snd (move dx dy c))"
  by (auto simp: move_def Let_def char_wf_def split: sum.splits)

lemma char_wf_set_position: "char_wf c \<Longrightarrow> char_wf (snd (set_position px py c))"
  by (auto simp: set_position_def Let_def char_wf_def split: sum.splits)

lemma char_wf_exec: "char_wf c \<Longrightarrow> char_wf (snd (exec call c))"
  by (cases call)
     (simp_all add: char_wf_add_animation char_wf_add_animation_from_master
        char_wf_add_animation_from_range char_wf_add_directional_animation
        char_wf_play_animation char_wf_update char_wf_move char_wf_set_position,
      simp_all add: char_wf_def load_master_sprite_sheet_def
        set_direction_mode_def set_facing_direction_def split: option.splits)

lemma char_wf_run: "char_wf c \<Longrightarrow> char_wf (run calls c)"
  by (induction calls arbitrary: c) (simp_all add: char_wf_exec)

lemma registered_selected:
  "char_wf c \<Longrightarrow> animations c name \<noteq> None \<Longrightarrow> current_animation c \<noteq> None"
  by (auto simp: char_wf_def)

subsection \<open>Registration under a name in use\<close>


lemmas call_defs =
  load_master_sprite_sheet_def add_animation_from_master_def add_animation_def
  add_animation_from_range_def play_animation_def
  select_if_first_def update_sprite_attributes_def surface_new_def transform_scale_def
  py_int_def py_index_def frame_position_def update_def update_image_def
  init_def hero_new_def hero_sheet_def AUTO_FLIP_def Let_def

lemma update_n_2: "update_n 2 c = update_n (Suc (Suc 0)) c"
  by (simp add: numeral_2_eq_2)

lemma strider_state:
  "animations strider ''walk'' \<noteq> None" "master_sprite_sheet strider \<noteq> None"
  "master_columns strider = 8" "current_animation strider = Some ''walk''"
  "current_frame strider = 0" "animation_timer strider = 1" "next_frame_index strider = 8"
  by (simp_all add: strider_def strider_calls_def call_defs)


subsection \<open>Selection by registration\<close>

text \<open>
  C9 (amended). A newly constructed character has no clip selected, and \<open>update()\<close>
  changes nothing while none is selected. A registration that returns True on a
  character with no clip selected selects the clip it registers, without any call of
  \<open>play_animation\<close>; on a character with a clip selected, every registration leaves the
  selection as it is. Frame index and tick are kept by every registration. A registration
  whose image does not load, or that returns False on the master sheet, leaves the
  character as it was.
\<close>

theorem first_registration_selects:
  "current_animation (init x y sc dm) = None \<and>
   (current_animation c = None \<longrightarrow> update c = (Returns_None, c)) \<and>
   (\<forall>r \<in> {add_animation name loaded w h frames speed loop,
            add_animation_from_master name frames speed loop,
            add_animation_from_range name s e speed loop}.
      (fst (r c) = Returns True \<longrightarrow>
         current_animation (snd (r c)) =
           Some (case current_animation c of None \<Rightarrow> name | Some cur \<Rightarrow> cur)) \<and>
      (current_animation c \<noteq> None \<longrightarrow>
         current_animation (snd (r c)) = current_animation c) \<and>
      current_frame (snd (r c)) = current_frame c \<and>
      animation_timer (snd (r c)) = animation_timer c) \<and>
   (loaded = None \<longrightarrow>
      add_animation name loaded w h frames speed loop c = (Returns False, c)) \<and>
   (fst (add_animation_from_master name frames speed loop c) = Returns False \<longrightarrow>
      snd (add_animation_from_master name frames speed loop c) = c) \<and>
   (fst (add_animation_from_range name s e speed loop c) = Returns False \<longrightarrow>
      snd (add_animation_from_range name s e speed loop c) = c)"
proof -
  have 1: "current_animation (init x y sc dm) = None" by (simp add: init_def)
  have 2: "current_animation c = None \<longrightarrow> update c = (Returns_None, c)"
    by (simp add: update_def)
  have 3: "(fst (add_animation name loaded w h frames speed loop c) = Returns True \<longrightarrow>
         current_animation (snd (add_animation name loaded w h frames speed loop c)) =
           Some (case current_animation c of None \<Rightarrow> name | Some cur \<Rightarrow> cur)) \<and>
      (current_animation c \<noteq> None \<longrightarrow>
         current_animation (snd (add_animation name loaded w h frames speed loop c)) =
           current_animation c) \<and>
      current_frame (snd (add_animation name loaded w h frames speed loop c)) = current_frame c \<and>
      animation_timer (snd (add_animation name loaded w h frames speed loop c)) = animation_timer c"
  proof (cases loaded)
    case None
    then show ?thesis by (simp add: add_animation_def)
  next
    case (Some img)
    then show ?thesis by (auto simp: add_animation_fields)
  qed
  have 4: "(fst (add_animation_from_master name frames speed loop c) = Returns True \<longrightarrow>
         current_animation (snd (add_animation_from_master name frames speed loop c)) =
           Some (case current_animation c of None \<Rightarrow> name | Some cur \<Rightarrow> cur)) \<and>
      (current_animation c \<noteq> None \<longrightarrow>
         current_animation (snd (add_animation_from_master name frames speed loop c)) =
           current_animation c) \<and>
      current_frame (snd (add_animation_from_master name frames speed loop c)) = current_frame c \<and>
      animation_timer (snd (add_animation_from_master name frames speed loop c)) = animation_timer c"
    unfolding add_animation_from_master_def Let_def
    by (cases "master_sprite_sheet c") (auto simp: raised_or_true)
  have 5: "(fst (add_animation_from_range name s e speed loop c) = Returns True \<longrightarrow>
         current_animation (snd (add_animation_from_range name s e speed loop c)) =
           Some (case current_animation c of None \<Rightarrow> name | Some cur \<Rightarrow> cur)) \<and>
      (current_animation c \<noteq> None \<longrightarrow>
         current_animation (snd (add_animation_from_range name s e speed loop c)) =
           current_animation c) \<and>
      current_frame (snd (add_animation_from_range name s e speed loop c)) = current_frame c \<and>
      animation_timer (snd (add_animation_from_range name s e speed loop c)) = animation_timer c"
    unfolding add_animation_from_range_def Let_def
    by (cases "master_sprite_sheet c") (auto simp: raised_or_true)
  have 6: "loaded = None \<longrightarrow>
      add_animation name loaded w h frames speed loop c = (Returns False, c)"
    by (simp add: add_animation_def)
  have 7: "fst (add_animation_from_master name frames speed loop c) = Returns False \<longrightarrow>
      snd (add_animation_from_master name frames speed loop c) = c"
    unfolding add_animation_from_master_def Let_def
    by (cases "master_sprite_sheet c") (auto simp: raised_or_true split: outcome.splits)
  have 8: "fst (add_animation_from_range name s e speed loop c) = Returns False \<longrightarrow>
      snd (add_animation_from_range name s e speed loop c) = c"
    unfolding add_animation_from_range_def Let_def
    by (cases "master_sprite_sheet c") (auto simp: raised_or_true split: outcome.splits)
  show ?thesis using 1 2 3 4 5 6 7 8 by blast
qed

theorem first_registration_selects_witness:
  "current_animation hero_new = None \<and>
   update hero = (Returns_None, hero) \<and>
   current_animation (snd (add_animation_from_master ''idle'' 4 15 True hero)) = Some ''idle'' \<and>
   current_animation (snd (add_animation_from_master ''walk'' 8 8 True idle_hero)) = Some ''idle'' \<and>
   snd (add_animation_from_range ''x'' 5 3 10 True hero) = hero"
proof -
  note t1 = first_registration_selects[of 500 350 3 AUTO_FLIP hero "''idle''" None 64 64 4 15 True 5 3]
  note t2 = first_registration_selects[of 500 350 3 AUTO_FLIP idle_hero "''walk''" None 64 64 8 8 True 5 3]
  note t3 = first_registration_selects[of 500 350 3 AUTO_FLIP hero "''x''" None 64 64 4 10 True 5 3]
  have ok1: "fst (add_animation_from_master ''idle'' 4 15 True hero) = Returns True"
    by (simp add: hero_def call_defs)
  have m: "current_animation idle_hero \<noteq> None"
    using t1 ok1 by (simp add: idle_hero_def)
  have bad: "fst (add_animation_from_range ''x'' 5 3 10 True hero) = Returns False"
    by (simp add: add_animation_from_range_def)
  have a: "current_animation hero_new = None" using t1 by (simp add: hero_new_def)
  have b: "update hero = (Returns_None, hero)" using t1 by simp
  have c: "current_animation (snd (add_animation_from_master ''idle'' 4 15 True hero)) = Some ''idle''"
    using t1 ok1 by simp
  have d: "current_animation (snd (add_animation_from_master ''walk'' 8 8 True idle_hero)) =
      current_animation idle_hero"
    using t2 m by blast
  have e: "snd (add_animation_from_range ''x'' 5 3 10 True hero) = hero"
    using t3 bad by blast
  from a b c d e show ?thesis by (simp add: idle_hero_def)
qed

text \<open>
  The claim as stated fails at the first registration: with no call of \<open>play_animation\<close>
  the clip \<open>idle\<close> is selected, and \<open>update()\<close> advances the tick.
\<close>

theorem registration_selects_counterexample:
  "current_animation hero = None \<and>
   fst (add_animation_from_master ''idle'' 4 15 True hero) = Returns True \<and>
   current_animation idle_hero = Some ''idle'' \<and>
   animation_timer idle_hero = 0 \<and>
   animation_timer (snd (update idle_hero)) = 1"
  by (simp add: idle_hero_def hero_def call_defs)

subsection \<open>Playback after a registration that replaces the selected clip\<close>

text \<open>
  \<open>update()\<close> counts the ticks against \<open>animation_speed\<close> and takes the frame count from
  the selected clip. \<open>play_animation\<close> and a first registration set the cursor and the
  speed in effect from the clip; a registration under the name of the selected clip
  replaces the clip and leaves both as they were.
\<close>

text \<open>
  C3. The looping clip \<open>walk\<close>, registered with 2 frames at speed 10 and again with 2
  frames at speed 1, is selected with frame count \<open>n = 2\<close> and speed \<open>s = 1\<close>, the cursor
  at frame 0, tick 0; the speed in effect is still 10, and after \<open>s * n = 2\<close> calls of
  \<open>update()\<close> the cursor is at frame 0, tick 2, not at tick 0.
\<close>

theorem looping_after_reregistration:
  "current_animation (run stale_calls hero_new) = Some ''walk'' \<and>
   map_option clip_loop (animations (run stale_calls hero_new) ''walk'') = Some True \<and>
   map_option clip_frames (animations (run stale_calls hero_new) ''walk'') = Some 2 \<and>
   map_option clip_speed (animations (run stale_calls hero_new) ''walk'') = Some 1 \<and>
   current_frame (run stale_calls hero_new) = 0 \<and>
   animation_timer (run stale_calls hero_new) = 0 \<and>
   animation_speed (run stale_calls hero_new) = 10 \<and>
   map_sum id (\<lambda>c. (current_frame c, animation_timer c))
     (update_n (nat (1 * 2)) (run stale_calls hero_new)) = Inr (0, 2)"
  by (simp add: stale_calls_def call_defs update_n_2)

text \<open>
  C4. The clip \<open>jump\<close>, not looping, registered with 2 frames at speed 10 and again with
  2 frames at speed 1, is selected with frame count \<open>n = 2\<close> and speed \<open>s = 1\<close>, the cursor
  at frame 0, tick 0; after \<open>s * n = 2\<close> calls of \<open>update()\<close> the frame index is 0, not
  \<open>n - 1 = 1\<close>, and the clip is not finished.
\<close>

theorem non_looping_after_reregistration:
  "current_animation (run stale_once_calls hero_new) = Some ''jump'' \<and>
   map_option clip_loop (animations (run stale_once_calls hero_new) ''jump'') = Some False \<and>
   map_option clip_frames (animations (run stale_once_calls hero_new) ''jump'') = Some 2 \<and>
   map_option clip_speed (animations (run stale_once_calls hero_new) ''jump'') = Some 1 \<and>
   current_frame (run stale_once_calls hero_new) = 0 \<and>
   animation_timer (run stale_once_calls hero_new) = 0 \<and>
   animation_speed (run stale_once_calls hero_new) = 10 \<and>
   map_sum id (\<lambda>c. (current_frame c, is_animation_finished c))
     (update_n (nat (1 * 2)) (run stale_once_calls hero_new)) = Inr (0, Inr False)"
  by (simp add: stale_once_calls_def call_defs update_n_2 is_animation_finished_def)

text \<open>
  C5. With the clip \<open>walk\<close> of 2 frames at speed 2 showing its frame 1, the cursor
  invariant holds and the only clip has frame count and speed \<open>\<ge> 1\<close>. The registration of
  \<open>walk\<close> with 1 frame at speed 2 returns True and leaves again a single clip with frame
  count and speed \<open>\<ge> 1\<close>, but the frame index 1 is no longer below the frame count: the
  invariant is broken by a public operation, and the next \<open>update()\<close> raises
  \<open>IndexError\<close>.
\<close>

theorem update_after_shrinking_reregistration:
  "cursor_ok (run shrink_calls hero_new) \<and>
   dom (animations (run shrink_calls hero_new)) = {''walk''} \<and>
   map_option clip_frames (animations (run shrink_calls hero_new) ''walk'') = Some 2 \<and>
   map_option clip_speed (animations (run shrink_calls hero_new) ''walk'') = Some 2 \<and>
   current_frame (run shrink_calls hero_new) = 1 \<and>
   fst (add_animation_from_master ''walk'' 1 2 True (run shrink_calls hero_new)) = Returns True \<and>
   dom (animations shrunk) = {''walk''} \<and>
   map_option clip_frames (animations shrunk ''walk'') = Some 1 \<and>
   map_option clip_speed (animations shrunk ''walk'') = Some 2 \<and>
   current_animation shrunk = Some ''walk'' \<and> current_frame shrunk = 1 \<and>
   \<not> cursor_ok shrunk \<and>
   fst (update shrunk) = Raises IndexError"
  by (simp add: shrunk_def shrink_calls_def call_defs cursor_ok_def)

end
